theory Spec2Isabelle
  imports Main "HOL-Library.Multiset" "HOL-Library.Char_ord" "HOL-Library.List_Lexorder"
    "HOL-Library.Sublist"
begin

section \<open>The task list controller of static/js/task\_manage.js\<close>

text \<open>
  The controller is one closure, \<open>initTaskManagement\<close>, over six variables (the task
  list, the sort field and direction, the selected task id, the visibility of the detail
  panel, the edit flag). Its functions read and write these variables and the page. The
  model below passes the variables and the modelled part of the page as a record.
  A fetch is modelled as two functions: one that issues the request and one that runs the
  promise chain on the response.
\<close>

subsection \<open>Strings\<close>

text \<open>
  A JavaScript string is a sequence of UTF-16 code units. The model keeps the code units
  below 256, which is what an Isabelle \<^typ>\<open>char\<close> holds. The operator \<open><\<close> of
  JavaScript on two strings compares them code unit by code unit, a proper prefix being
  smaller: this is the lexicographic order on \<^typ>\<open>string\<close>.
\<close>

definition toLowerCase_unit :: "char \<Rightarrow> char" where
  "toLowerCase_unit c =
     (let n = (of_char c :: nat)
      in if (65 \<le> n \<and> n \<le> 90) \<or> (192 \<le> n \<and> n \<le> 222 \<and> n \<noteq> 215)
         then char_of (n + 32) else c)"

definition toLowerCase :: "string \<Rightarrow> string" where
  "toLowerCase s = map toLowerCase_unit s"

text \<open>
  A field of a task that holds text is \<open>None\<close> when it is \<open>null\<close>, \<open>undefined\<close> or absent,
  and \<open>Some s\<close> when it is the string \<open>s\<close>. \<open>x || ''\<close> yields the empty string for
  every falsy \<open>x\<close>, and the empty string is the only falsy string.
\<close>

definition truthy :: "string option \<Rightarrow> bool" where
  "truthy x = (case x of None \<Rightarrow> False | Some s \<Rightarrow> s \<noteq> [])"

definition or_else :: "string option \<Rightarrow> string option \<Rightarrow> string option" where
  "or_else x y = (if truthy x then x else y)"

definition or_empty :: "string option \<Rightarrow> string" where
  "or_empty x = (case x of None \<Rightarrow> [] | Some s \<Rightarrow> s)"

subsection \<open>The values that sortTasks compares\<close>

text \<open>
  \<open>Num\<close> is a number that is an integer, \<open>NaN\<close> the number NaN. \<open>Date\<close> is a Date object
  with its time value in milliseconds, \<open>None\<close> for an invalid date. \<open>Obj s\<close> is an object
  or a function whose conversion to a string gives \<open>s\<close>.
\<close>

datatype jsval = Undefined | Null | Num int | NaN | Str string | Date "int option" | Obj string

fun ToPrimitive :: "jsval \<Rightarrow> jsval" where
  "ToPrimitive (Date (Some t)) = Num t"
| "ToPrimitive (Date None) = NaN"
| "ToPrimitive (Obj s) = Str s"
| "ToPrimitive v = v"

definition is_space :: "char \<Rightarrow> bool" where
  "is_space c = ((of_char c :: nat) \<in> {9, 10, 11, 12, 13, 32, 160})"

definition is_digit :: "char \<Rightarrow> bool" where
  "is_digit c = (48 \<le> (of_char c :: nat) \<and> (of_char c :: nat) \<le> 57)"

definition digit_value :: "char \<Rightarrow> int" where
  "digit_value c = int (of_char c) - 48"

definition trim :: "string \<Rightarrow> string" where
  "trim s = rev (dropWhile is_space (rev (dropWhile is_space s)))"

text \<open>
  The conversion of a string to a number, \<open>None\<close> for NaN. White space alone is 0 and a
  run of decimal digits is its value. Every other string is NaN here: signs, fractions,
  exponents, radix prefixes and \<open>Infinity\<close> are left out, because the only strings that
  sortTasks compares with a number are the empty string and the text of an inherited
  function or object.
\<close>

definition StringToNumber :: "string \<Rightarrow> int option" where
  "StringToNumber s =
     (let t = trim s
      in if t = [] then Some 0
         else if list_all is_digit t then Some (foldl (\<lambda>n c. 10 * n + digit_value c) 0 t)
         else None)"

fun ToNumber :: "jsval \<Rightarrow> int option" where
  "ToNumber Undefined = None"
| "ToNumber Null = Some 0"
| "ToNumber (Num n) = Some n"
| "ToNumber NaN = None"
| "ToNumber (Str s) = StringToNumber s"
| "ToNumber (Date t) = t"
| "ToNumber (Obj s) = StringToNumber s"

text \<open>
  \<open>a < b\<close>: both operands are made primitive; two strings are compared as strings, any
  other pair as numbers, and a comparison with NaN is false. \<open>a > b\<close> is \<open>b < a\<close>.
\<close>

definition js_lt :: "jsval \<Rightarrow> jsval \<Rightarrow> bool" where
  "js_lt a b =
     (case (ToPrimitive a, ToPrimitive b) of
        (Str s, Str t) \<Rightarrow> s < t
      | (pa, pb) \<Rightarrow>
          (case (ToNumber pa, ToNumber pb) of
             (Some m, Some n) \<Rightarrow> m < n
           | _ \<Rightarrow> False))"

definition js_gt :: "jsval \<Rightarrow> jsval \<Rightarrow> bool" where
  "js_gt a b = js_lt b a"

subsection \<open>Property lookup in an object literal\<close>

text \<open>
  \<open>priorityOrder[k]\<close> looks \<open>k\<close> up among the literal's own properties first and then
  among those it inherits from \<open>Object.prototype\<close>. The inherited values are functions,
  and for \<open>__proto__\<close> the prototype object; each is listed with the string it converts to.
\<close>

definition Object_prototype :: "(string \<times> string) list" where
  "Object_prototype =
     [(''constructor'', ''function Object() { [native code] }''),
      (''hasOwnProperty'', ''function hasOwnProperty() { [native code] }''),
      (''isPrototypeOf'', ''function isPrototypeOf() { [native code] }''),
      (''propertyIsEnumerable'', ''function propertyIsEnumerable() { [native code] }''),
      (''toLocaleString'', ''function toLocaleString() { [native code] }''),
      (''toString'', ''function toString() { [native code] }''),
      (''valueOf'', ''function valueOf() { [native code] }''),
      (''__defineGetter__'', ''function __defineGetter__() { [native code] }''),
      (''__defineSetter__'', ''function __defineSetter__() { [native code] }''),
      (''__lookupGetter__'', ''function __lookupGetter__() { [native code] }''),
      (''__lookupSetter__'', ''function __lookupSetter__() { [native code] }''),
      (''__proto__'', ''[object Object]'')]"

definition get_property :: "(string \<times> int) list \<Rightarrow> string \<Rightarrow> jsval" where
  "get_property own k =
     (case map_of own k of
        Some n \<Rightarrow> Num n
      | None \<Rightarrow> (case map_of Object_prototype k of Some s \<Rightarrow> Obj s | None \<Rightarrow> Undefined))"

text \<open>
  The property key of a text field: \<open>null\<close> and \<open>undefined\<close> are looked up under their
  names, which no table and no prototype has.
\<close>

definition property_key :: "string option \<Rightarrow> string" where
  "property_key x = (case x of None \<Rightarrow> ''undefined'' | Some s \<Rightarrow> s)"

definition priorityOrder :: "(string \<times> int) list" where
  "priorityOrder = [(''urgent'', 0), (''high'', 1), (''medium'', 2), (''low'', 3)]"

definition statusOrder :: "(string \<times> int) list" where
  "statusOrder = [(''todo'', 0), (''in_progress'', 1), (''review'', 2), (''done'', 3)]"

subsection \<open>Tasks\<close>

record project =
  project_name :: "string option"

record user =
  full_name :: "string option"
  username :: "string option"

record task =
  task_id :: int
  title :: "string option"
  project :: "project option"
  assignee :: "user option"
  priority :: "string option"
  status :: "string option"
  due_date :: "string option"

text \<open>\<open>a.project?.name\<close> and \<open>a.assignee?.full_name\<close>: undefined when the object is missing.\<close>

definition project_name_of :: "task \<Rightarrow> string option" where
  "project_name_of a = (case project a of None \<Rightarrow> None | Some p \<Rightarrow> project_name p)"

definition assignee_full_name :: "task \<Rightarrow> string option" where
  "assignee_full_name a = (case assignee a of None \<Rightarrow> None | Some u \<Rightarrow> full_name u)"

definition assignee_username :: "task \<Rightarrow> string option" where
  "assignee_username a = (case assignee a of None \<Rightarrow> None | Some u \<Rightarrow> username u)"

subsection \<open>Dates\<close>

text \<open>
  A time value is a number of milliseconds since the epoch, \<open>None\<close> for NaN.
  \<open>new Date(string)\<close> parses with the engine's \<open>Date.parse\<close>, which the source does not
  contain: the functions below take it as the parameter \<open>dp\<close>. \<open>new Date(number)\<close>
  keeps a time value within the range of a Date and turns any other into NaN.
\<close>

definition TimeClip :: "int option \<Rightarrow> int option" where
  "TimeClip t =
     (case t of None \<Rightarrow> None
      | Some n \<Rightarrow> if \<bar>n\<bar> \<le> 8640000000000000 then Some n else None)"

subsection \<open>sortTasks\<close>

text \<open>The switch on \<open>currentSortField\<close> that computes \<open>valueA\<close> (and \<open>valueB\<close>).\<close>

definition sort_value :: "(string \<Rightarrow> int option) \<Rightarrow> string \<Rightarrow> task \<Rightarrow> jsval" where
  "sort_value dp field a =
     (if field = ''title'' then Str (toLowerCase (or_empty (title a)))
      else if field = ''project'' then Str (toLowerCase (or_empty (project_name_of a)))
      else if field = ''assignee'' then
        Str (toLowerCase (or_empty (or_else (assignee_full_name a) (assignee_username a))))
      else if field = ''priority'' then get_property priorityOrder (property_key (priority a))
      else if field = ''status'' then get_property statusOrder (property_key (status a))
      else if field = ''due_date'' then
        (if truthy (due_date a) then Date (TimeClip (dp (or_empty (due_date a))))
         else Date (Some 0))
      else Str (toLowerCase (or_empty (title a))))"

text \<open>\<open>if (valueA === null || valueA === undefined) valueA = ''\<close>\<close>

definition coerce_missing :: "jsval \<Rightarrow> jsval" where
  "coerce_missing v = (if v = Null \<or> v = Undefined then Str [] else v)"

definition compareTasks ::
  "(string \<Rightarrow> int option) \<Rightarrow> string \<Rightarrow> string \<Rightarrow> task \<Rightarrow> task \<Rightarrow> int" where
  "compareTasks dp field direction a b =
     (let valueA = coerce_missing (sort_value dp field a);
          valueB = coerce_missing (sort_value dp field b)
      in if js_lt valueA valueB then (if direction = ''asc'' then - 1 else 1)
         else if js_gt valueA valueB then (if direction = ''asc'' then 1 else - 1)
         else 0)"

text \<open>
  \<open>Array.prototype.sort\<close> is stable. When the comparator orders the elements
  consistently, the result is the one stable sorted arrangement of the array, whatever
  algorithm the engine runs; the model computes it by insertion. For a comparator that
  is not consistent the language leaves the order to the engine, and no theorem below
  speaks about that case.
\<close>

fun place :: "('a \<Rightarrow> 'a \<Rightarrow> int) \<Rightarrow> 'a \<Rightarrow> 'a list \<Rightarrow> 'a list" where
  "place cmp x [] = [x]"
| "place cmp x (y # ys) = (if cmp x y \<le> 0 then x # y # ys else y # place cmp x ys)"

definition Array_sort :: "('a \<Rightarrow> 'a \<Rightarrow> int) \<Rightarrow> 'a list \<Rightarrow> 'a list" where
  "Array_sort cmp xs = foldr (place cmp) xs []"

subsection \<open>The state of the controller and of the page\<close>

text \<open>
  Of the page, the model keeps what the functions below read or write: the five filter
  controls, the table body, the task counter, the scroll container and the detail panel.
  An element is \<open>None\<close> when the page does not have it. The effects a claim can
  speak about are kept as logs: the alerts shown, the requests issued, and the exceptions
  that left an event handler uncaught. The console, the modal dialog, the icons of the
  table headers and the text inside cells and panels are not modelled.
\<close>

datatype js_error = TypeError | RangeError

text \<open>
  A row of the table body: \<open>row_task_id\<close> is \<open>dataset.taskId\<close>, which renderTasksTable
  writes from \<open>task.id\<close> and the click handler reads back with \<open>parseInt\<close>;
  \<open>row_selected\<close> is the class \<open>selected\<close>.
\<close>

record row =
  row_task_id :: int
  row_selected :: bool

text \<open>\<open>Placeholder\<close> is the single row that says "No tasks found"; it has no task id.\<close>

datatype table_body = Placeholder | Rows "row list"

record task_data =
  td_title :: "string option"
  td_description :: "string option"
  td_type :: "string option"
  td_status :: "string option"
  td_priority :: "string option"
  td_severity :: "string option"
  td_project_id :: "int option"
  td_assignee_id :: "int option option"
  td_start_date :: "int option"
  td_due_date :: "int option"

record request =
  req_method :: string
  req_url :: string
  req_body :: "task_data option"

record state =
  tasks :: "task list"
  currentSortField :: string
  currentSortDirection :: string
  selectedTaskId :: "int option"
  detailVisible :: bool
  isEditing :: bool
  statusFilter :: "string option"
  assigneeFilter :: "string option"
  projectFilter :: "string option"
  priorityFilter :: "string option"
  textSearch :: "string option"
  tasksTableBody :: "table_body option"
  tasksCount :: "nat option"
  tasksScrollContainer :: "string option"
  taskDetailContainer :: "string option"
  taskDetail :: "task option"
  alerts :: "string list"
  requests :: "request list"
  uncaught :: "js_error list"

text \<open>The state when \<open>initTaskManagement\<close> starts, on a page that has every element.\<close>

definition initial_state :: state where
  "initial_state =
     \<lparr>tasks = [], currentSortField = ''title'', currentSortDirection = ''asc'',
      selectedTaskId = None, detailVisible = False, isEditing = False,
      statusFilter = Some ''all'', assigneeFilter = Some ''all'',
      projectFilter = Some ''all'', priorityFilter = Some ''all'', textSearch = Some [],
      tasksTableBody = Some (Rows []), tasksCount = Some 0,
      tasksScrollContainer = Some [], taskDetailContainer = Some ''none'',
      taskDetail = None, alerts = [], requests = [], uncaught = []\<rparr>"

definition showErrorNotification :: "string \<Rightarrow> state \<Rightarrow> state" where
  "showErrorNotification message s = s\<lparr>alerts := alerts s @ [message]\<rparr>"

definition showNotification :: "string \<Rightarrow> state \<Rightarrow> state" where
  "showNotification message s = s\<lparr>alerts := alerts s @ [message]\<rparr>"

definition sortTasks :: "(string \<Rightarrow> int option) \<Rightarrow> state \<Rightarrow> state" where
  "sortTasks dp s =
     s\<lparr>tasks := Array_sort (compareTasks dp (currentSortField s) (currentSortDirection s))
                  (tasks s)\<rparr>"

definition render_row :: "state \<Rightarrow> task \<Rightarrow> row" where
  "render_row s t =
     \<lparr>row_task_id = task_id t,
      row_selected = (selectedTaskId s = Some (task_id t) \<and> detailVisible s)\<rparr>"

definition renderTasksTable :: "task list \<Rightarrow> state \<Rightarrow> state" where
  "renderTasksTable ts s =
     (if tasksTableBody s = None \<or> tasksCount s = None then s
      else if length ts = 0
        then s\<lparr>tasksTableBody := Some Placeholder, tasksCount := Some (length ts)\<rparr>
        else s\<lparr>tasksTableBody := Some (Rows (map (render_row s) ts)),
                tasksCount := Some (length ts)\<rparr>)"

text \<open>
  The click handler that setupSorting puts on a table header whose \<open>data-sort\<close> is
  \<open>sortField\<close>.
\<close>

definition sort_header_click :: "(string \<Rightarrow> int option) \<Rightarrow> string \<Rightarrow> state \<Rightarrow> state" where
  "sort_header_click dp sortField s =
     (let s1 = (if sortField = currentSortField s
                then s\<lparr>currentSortDirection :=
                        (if currentSortDirection s = ''asc'' then ''desc'' else ''asc'')\<rparr>
                else s\<lparr>currentSortField := sortField, currentSortDirection := ''asc''\<rparr>);
          s2 = sortTasks dp s1
      in renderTasksTable (tasks s2) s2)"

subsection \<open>Numbers as text, and query strings\<close>

fun nat_digits :: "nat \<Rightarrow> string" where
  "nat_digits n =
     (if n < 10 then [char_of (48 + n)]
      else nat_digits (n div 10) @ [char_of (48 + n mod 10)])"

declare nat_digits.simps [simp del]

text \<open>\<open>String(n)\<close> of a number that is an integer, and \<open>'NaN'\<close> for NaN.\<close>

definition Number_toString :: "int \<Rightarrow> string" where
  "Number_toString n =
     (if n < 0 then CHR ''-'' # nat_digits (nat (- n)) else nat_digits (nat n))"

definition String_of :: "int option \<Rightarrow> string" where
  "String_of x = (case x of None \<Rightarrow> ''NaN'' | Some n \<Rightarrow> Number_toString n)"

text \<open>
  \<open>URLSearchParams.toString\<close>: every name and value is encoded in UTF-8; a space
  becomes \<open>+\<close>, letters, digits and \<open>* - . _\<close> stay, every other byte becomes \<open>%XX\<close>;
  the pairs are written \<open>name=value\<close> and joined with \<open>&\<close>.
\<close>

definition utf8 :: "char \<Rightarrow> nat list" where
  "utf8 c = (let n = (of_char c :: nat)
             in if n < 128 then [n] else [192 + n div 64, 128 + n mod 64])"

definition hex_digit :: "nat \<Rightarrow> char" where
  "hex_digit n = (if n < 10 then char_of (48 + n) else char_of (55 + n))"

definition urlencode_byte :: "nat \<Rightarrow> string" where
  "urlencode_byte b =
     (if b = 32 then ''+''
      else if (48 \<le> b \<and> b \<le> 57) \<or> (65 \<le> b \<and> b \<le> 90) \<or> (97 \<le> b \<and> b \<le> 122)
              \<or> b = 42 \<or> b = 45 \<or> b = 46 \<or> b = 95
        then [char_of b]
      else [CHR ''%'', hex_digit (b div 16), hex_digit (b mod 16)])"

definition urlencode :: "string \<Rightarrow> string" where
  "urlencode s = concat (map urlencode_byte (concat (map utf8 s)))"

fun URLSearchParams_toString :: "(string \<times> string) list \<Rightarrow> string" where
  "URLSearchParams_toString [] = []"
| "URLSearchParams_toString [(k, v)] = urlencode k @ ''='' @ urlencode v"
| "URLSearchParams_toString ((k, v) # ps) =
     urlencode k @ ''='' @ urlencode v @ ''&'' @ URLSearchParams_toString ps"

subsection \<open>loadTasks\<close>

text \<open>
  The value of a filter control is \<open>None\<close> when the page lacks the control
  (\<open>document.getElementById(...)?.value\<close> is then \<open>undefined\<close>).
  \<open>if (status && status !== 'all') params.append('status', status)\<close>, and for the
  search text \<open>if (text) params.append('search_text', text)\<close>.
\<close>

definition filter_param :: "string \<Rightarrow> string option \<Rightarrow> (string \<times> string) list" where
  "filter_param name v = (if truthy v \<and> v \<noteq> Some ''all'' then [(name, or_empty v)] else [])"

definition search_param :: "string option \<Rightarrow> (string \<times> string) list" where
  "search_param text = (if truthy text then [(''search_text'', or_empty text)] else [])"

definition loadTasks_params :: "state \<Rightarrow> (string \<times> string) list" where
  "loadTasks_params s =
     filter_param ''status'' (statusFilter s) @
     filter_param ''assignee'' (assigneeFilter s) @
     filter_param ''project'' (projectFilter s) @
     filter_param ''priority'' (priorityFilter s) @
     search_param (textSearch s)"

definition fetch :: "string \<Rightarrow> string \<Rightarrow> task_data option \<Rightarrow> state \<Rightarrow> state" where
  "fetch method url body s =
     s\<lparr>requests := requests s @ [\<lparr>req_method = method, req_url = url, req_body = body\<rparr>]\<rparr>"

definition loadTasks :: "state \<Rightarrow> state" where
  "loadTasks s =
     fetch ''GET'' (''/api/tasks?'' @ URLSearchParams_toString (loadTasks_params s)) None s"

text \<open>
  What a fetch comes back with. \<open>NetworkError m\<close>: the promise of \<open>fetch\<close> is rejected
  with an error of message \<open>m\<close>. \<open>Response st body\<close>: a response of status \<open>st\<close>; its body
  is \<open>Inr d\<close> when \<open>response.json()\<close> yields \<open>d\<close> and \<open>Inl m\<close> when \<open>response.json()\<close> is
  rejected with an error of message \<open>m\<close>.
\<close>

datatype 'a response = NetworkError string | Response nat "string + 'a"

definition response_ok :: "nat \<Rightarrow> bool" where
  "response_ok st = (200 \<le> st \<and> st \<le> 299)"

text \<open>The body of the task list: \<open>{tasks: [...]}\<close> or the array itself (\<open>data.tasks || data\<close>).\<close>

datatype tasks_json = Wrapped "task list" | Bare "task list"

fun tasks_of :: "tasks_json \<Rightarrow> task list" where
  "tasks_of (Wrapped ts) = ts"
| "tasks_of (Bare ts) = ts"

definition loadTasks_catch :: "state \<Rightarrow> state" where
  "loadTasks_catch s =
     renderTasksTable [] (showErrorNotification ''Failed to load tasks. Please try again later.'' s)"

text \<open>The promise chain of loadTasks, run on what the fetch came back with.\<close>

definition loadTasks_then :: "(string \<Rightarrow> int option) \<Rightarrow> tasks_json response \<Rightarrow> state \<Rightarrow> state" where
  "loadTasks_then dp r s =
     (case r of
        NetworkError m \<Rightarrow> loadTasks_catch s
      | Response st body \<Rightarrow>
          if \<not> response_ok st then loadTasks_catch s
          else (case body of
                  Inl m \<Rightarrow> loadTasks_catch s
                | Inr data \<Rightarrow>
                    (let s1 = s\<lparr>tasks := tasks_of data\<rparr>;
                         s2 = sortTasks dp s1
                     in renderTasksTable (tasks s2) s2)))"

subsection \<open>The detail panel: handleTaskRowClick, loadTaskDetails, closeTaskDetail\<close>

definition table_rows :: "state \<Rightarrow> row list" where
  "table_rows s = (case tasksTableBody s of Some (Rows rs) \<Rightarrow> rs | _ \<Rightarrow> [])"

text \<open>
  The target of a click on the table body: \<open>None\<close> when \<open>e.target.closest('tr')\<close> finds
  no row, \<open>Some i\<close> for the row number \<open>i\<close> of the table body. The placeholder row has no
  \<open>data-task-id\<close>. The handler goes on only with a row that has one.
\<close>

definition clicked_row :: "nat option \<Rightarrow> state \<Rightarrow> (nat \<times> row) option" where
  "clicked_row target s =
     (case target of
        None \<Rightarrow> None
      | Some i \<Rightarrow> if i < length (table_rows s) then Some (i, table_rows s ! i) else None)"

definition set_rows :: "row list \<Rightarrow> state \<Rightarrow> state" where
  "set_rows rs s =
     (case tasksTableBody s of Some (Rows old) \<Rightarrow> s\<lparr>tasksTableBody := Some (Rows rs)\<rparr> | _ \<Rightarrow> s)"

text \<open>\<open>row.classList.add('selected')\<close> and \<open>remove\<close>, on the row number \<open>i\<close>.\<close>

definition mark_row :: "nat \<Rightarrow> bool \<Rightarrow> state \<Rightarrow> state" where
  "mark_row i b s =
     (if i < length (table_rows s)
      then set_rows ((table_rows s)[i := (table_rows s ! i)\<lparr>row_selected := b\<rparr>]) s
      else s)"

definition unmark_all :: "state \<Rightarrow> state" where
  "unmark_all s = set_rows (map (\<lambda>r. r\<lparr>row_selected := False\<rparr>) (table_rows s)) s"

fun find_index :: "('a \<Rightarrow> bool) \<Rightarrow> 'a list \<Rightarrow> nat option" where
  "find_index P [] = None"
| "find_index P (x # xs) =
     (if P x then Some 0 else map_option Suc (find_index P xs))"

text \<open>\<open>if (scrollContainer) scrollContainer.style.maxHeight = v\<close>\<close>

definition set_maxHeight :: "string \<Rightarrow> state \<Rightarrow> state" where
  "set_maxHeight v s =
     (case tasksScrollContainer s of None \<Rightarrow> s | Some old \<Rightarrow> s\<lparr>tasksScrollContainer := Some v\<rparr>)"

text \<open>An exception that leaves an event handler: the handler stops, the error is reported.\<close>

definition throw :: "js_error \<Rightarrow> state \<Rightarrow> state" where
  "throw e s = s\<lparr>uncaught := uncaught s @ [e]\<rparr>"

definition loadTaskDetails :: "int \<Rightarrow> state \<Rightarrow> state" where
  "loadTaskDetails taskId s = fetch ''GET'' (''/api/tasks/'' @ Number_toString taskId) None s"

definition loadComments :: "int \<Rightarrow> state \<Rightarrow> state" where
  "loadComments taskId s =
     fetch ''GET'' (''/api/tasks/'' @ Number_toString taskId @ ''/comments'') None s"

text \<open>
  \<open>document.getElementById('taskDetailContainer').style.display = ...\<close> is not guarded
  in handleTaskRowClick: on a page without the panel it raises a TypeError, after the
  two variables have been assigned.
\<close>

definition handleTaskRowClick :: "nat option \<Rightarrow> state \<Rightarrow> state" where
  "handleTaskRowClick target s =
     (case clicked_row target s of
        None \<Rightarrow> s
      | Some (i, row) \<Rightarrow>
          (let taskId = row_task_id row in
           if selectedTaskId s = Some taskId then
             (let s1 = s\<lparr>detailVisible := \<not> detailVisible s\<rparr> in
              if detailVisible s1 then
                (let s2 = set_maxHeight ''40vh'' s1 in
                 case taskDetailContainer s2 of
                   None \<Rightarrow> throw TypeError s2
                 | Some old \<Rightarrow> mark_row i True (s2\<lparr>taskDetailContainer := Some ''block''\<rparr>))
              else
                (let s2 = set_maxHeight ''70vh'' s1 in
                 case taskDetailContainer s2 of
                   None \<Rightarrow> throw TypeError s2
                 | Some old \<Rightarrow> mark_row i False (s2\<lparr>taskDetailContainer := Some ''none''\<rparr>)))
           else
             (let s1 = s\<lparr>selectedTaskId := Some taskId, detailVisible := True\<rparr>;
                  s2 = unmark_all s1;
                  s3 = set_maxHeight ''40vh'' s2
              in case taskDetailContainer s3 of
                   None \<Rightarrow> throw TypeError s3
                 | Some old \<Rightarrow>
                     loadComments taskId
                       (loadTaskDetails taskId
                          (mark_row i True (s3\<lparr>taskDetailContainer := Some ''block''\<rparr>))))))"

text \<open>
  renderTaskDetails shows the panel and fills it with the attributes of the task; the
  model keeps which task is shown. The elements inside the panel are taken to exist
  whenever the panel does.
\<close>

definition renderTaskDetails :: "task \<Rightarrow> state \<Rightarrow> state" where
  "renderTaskDetails t s =
     (case taskDetailContainer s of
        None \<Rightarrow> s
      | Some old \<Rightarrow> s\<lparr>taskDetailContainer := Some ''block'', taskDetail := Some t\<rparr>)"

definition loadTaskDetails_then :: "int \<Rightarrow> task response \<Rightarrow> state \<Rightarrow> state" where
  "loadTaskDetails_then taskId r s =
     (case r of
        NetworkError m \<Rightarrow> showNotification ''Failed to load task details'' s
      | Response st body \<Rightarrow>
          if \<not> response_ok st then showNotification ''Failed to load task details'' s
          else (case body of
                  Inl m \<Rightarrow> showNotification ''Failed to load task details'' s
                | Inr t \<Rightarrow>
                    renderTaskDetails t
                      (case find_index (\<lambda>x. task_id x = taskId) (tasks s) of
                         None \<Rightarrow> s
                       | Some index \<Rightarrow> s\<lparr>tasks := (tasks s)[index := t]\<rparr>)))"

text \<open>The first row of the table body whose \<open>data-task-id\<close> is \<open>n\<close>, as querySelector finds it.\<close>

definition unmark_first :: "int \<Rightarrow> state \<Rightarrow> state" where
  "unmark_first n s =
     (case find_index (\<lambda>r. row_task_id r = n) (table_rows s) of
        None \<Rightarrow> s
      | Some i \<Rightarrow> mark_row i False s)"

text \<open>\<open>if (selectedTaskId)\<close> is false for \<open>null\<close> and for the id 0.\<close>

definition closeTaskDetail :: "state \<Rightarrow> state" where
  "closeTaskDetail s =
     (let s1 = set_maxHeight ''70vh'' s;
          s2 = (case taskDetailContainer s1 of
                  None \<Rightarrow> s1
                | Some old \<Rightarrow> s1\<lparr>taskDetailContainer := Some ''none''\<rparr>);
          s3 = (case selectedTaskId s2 of
                  None \<Rightarrow> s2
                | Some n \<Rightarrow> if n \<noteq> 0 then unmark_first n s2 else s2)
      in s3\<lparr>detailVisible := False, selectedTaskId := None\<rparr>)"

subsection \<open>deleteTask (static/js/task\_manage copy.js)\<close>

text \<open>
  deleteTask is called with the \<open>data-task-id\<close> of a delete button and compares it with
  \<open>selectedTaskId\<close> by \<open>==\<close>, which converts the text to a number: the model takes the
  id as the number. \<open>confirmed\<close> is the answer to the confirm dialog.
\<close>

definition deleteTask :: "bool \<Rightarrow> int \<Rightarrow> state \<Rightarrow> state" where
  "deleteTask confirmed taskId s =
     (if \<not> confirmed then s
      else fetch ''DELETE'' (''/api/tasks/'' @ Number_toString taskId) None s)"

definition remove_first_row :: "int \<Rightarrow> state \<Rightarrow> state" where
  "remove_first_row n s =
     (case find_index (\<lambda>r. row_task_id r = n) (table_rows s) of
        None \<Rightarrow> s
      | Some i \<Rightarrow> set_rows (take i (table_rows s) @ drop (Suc i) (table_rows s)) s)"

text \<open>\<open>x || d\<close> for a text \<open>x\<close> and a default \<open>d\<close> that is not empty.\<close>

definition or_default :: "string option \<Rightarrow> string \<Rightarrow> string" where
  "or_default x d = (if truthy x then or_empty x else d)"

text \<open>
  The promise chain of deleteTask. The body of a failed response is the JSON object of
  the error, of which \<open>data.error\<close> is read.
\<close>

definition deleteTask_then :: "int \<Rightarrow> string option response \<Rightarrow> state \<Rightarrow> state" where
  "deleteTask_then taskId r s =
     (case r of
        NetworkError m \<Rightarrow>
          showNotification (or_default (Some m) ''Failed to delete task. Please try again later.'') s
      | Response st body \<Rightarrow>
          if response_ok st then
            (let s1 = remove_first_row taskId s;
                 s2 = (if selectedTaskId s1 = Some taskId
                       then closeTaskDetail (s1\<lparr>selectedTaskId := None, detailVisible := False\<rparr>)
                       else s1)
             in showNotification ''Task deleted successfully'' s2)
          else
            (case body of
               Inl m \<Rightarrow>
                 showNotification
                   (or_default (Some m) ''Failed to delete task. Please try again later.'') s
             | Inr err \<Rightarrow>
                 showNotification
                   (or_default (Some (or_default err ''Failed to delete task''))
                      ''Failed to delete task. Please try again later.'') s))"

subsection \<open>formatDate\<close>

text \<open>
  The calendar date of a day number (days since 1970-01-01), as \<open>getUTCFullYear\<close>,
  \<open>getUTCMonth\<close> and \<open>getUTCDate\<close> compute it; each is NaN for an invalid date.
\<close>

definition civil_from_days :: "int \<Rightarrow> int \<times> int \<times> int" where
  "civil_from_days z0 =
     (let z = z0 + 719468;
          era = z div 146097;
          doe = z mod 146097;
          yoe = (doe - doe div 1460 + doe div 36524 - doe div 146096) div 365;
          y = yoe + era * 400;
          doy = doe - (365 * yoe + yoe div 4 - yoe div 100);
          mp = (5 * doy + 2) div 153;
          d = doy - (153 * mp + 2) div 5 + 1;
          m = (if mp < 10 then mp + 3 else mp - 9)
      in (if m \<le> 2 then y + 1 else y, m, d))"

definition getUTCFullYear :: "int option \<Rightarrow> int option" where
  "getUTCFullYear t = map_option (\<lambda>n. fst (civil_from_days (n div 86400000))) t"

definition getUTCMonth :: "int option \<Rightarrow> int option" where
  "getUTCMonth t = map_option (\<lambda>n. fst (snd (civil_from_days (n div 86400000))) - 1) t"

definition getUTCDate :: "int option \<Rightarrow> int option" where
  "getUTCDate t = map_option (\<lambda>n. snd (snd (civil_from_days (n div 86400000)))) t"

definition padStart2 :: "string \<Rightarrow> string" where
  "padStart2 s = replicate (2 - length s) CHR ''0'' @ s"

text \<open>
  formatDate. \<open>new Date(dateString)\<close> does not raise on a string it cannot parse: it
  yields an invalid date, whose time value is NaN, and every step after it yields NaN.
  No statement of the \<open>try\<close> block raises on a string, so the \<open>catch\<close> branch, which
  returns \<open>'Invalid date'\<close>, has no counterpart in the model.
\<close>

definition formatDate :: "(string \<Rightarrow> int option) \<Rightarrow> string option \<Rightarrow> string" where
  "formatDate dp dateString =
     (if \<not> truthy dateString then ''Not set''
      else
        (let date = TimeClip (dp (or_empty dateString));
             beijingDate = TimeClip (map_option (\<lambda>t. t + 8 * 60 * 60 * 1000) date);
             year = getUTCFullYear beijingDate;
             month = padStart2 (String_of (map_option (\<lambda>m. m + 1) (getUTCMonth beijingDate)));
             day = padStart2 (String_of (getUTCDate beijingDate))
         in String_of year @ ''-'' @ month @ ''-'' @ day))"

subsection \<open>handleTaskSubmission\<close>

text \<open>
  \<open>parseInt\<close> of a text (\<open>null\<close> is read as the text \<open>null\<close>): leading white space and a
  sign are skipped, \<open>0x\<close> selects radix 16, and the longest run of digits is the value;
  \<open>None\<close> is NaN, the result when there is no digit.
\<close>

definition hex_digit_value :: "char \<Rightarrow> int option" where
  "hex_digit_value c =
     (let n = (of_char c :: nat)
      in if 48 \<le> n \<and> n \<le> 57 then Some (int n - 48)
         else if 65 \<le> n \<and> n \<le> 70 then Some (int n - 55)
         else if 97 \<le> n \<and> n \<le> 102 then Some (int n - 87)
         else None)"

definition digits_value :: "int \<Rightarrow> string \<Rightarrow> int option" where
  "digits_value radix ds =
     (if ds = [] then None
      else Some (foldl (\<lambda>n c. radix * n + (case hex_digit_value c of Some v \<Rightarrow> v | None \<Rightarrow> 0)) 0 ds))"

definition parseInt :: "string option \<Rightarrow> int option" where
  "parseInt x =
     (let s = dropWhile is_space (case x of None \<Rightarrow> ''null'' | Some t \<Rightarrow> t);
          negative = (take 1 s = ''-'');
          u = (if take 1 s = ''-'' \<or> take 1 s = ''+'' then drop 1 s else s);
          magnitude =
            (if take 2 u = ''0x'' \<or> take 2 u = ''0X''
             then digits_value 16 (takeWhile (\<lambda>c. hex_digit_value c \<noteq> None) (drop 2 u))
             else digits_value 10 (takeWhile is_digit u))
      in map_option (\<lambda>n. if negative then - n else n) magnitude)"

text \<open>
  A submitted form, as \<open>FormData.get\<close> reads it: \<open>None\<close> for a field the form lacks.
\<close>

type_synonym form = "string \<Rightarrow> string option"

text \<open>
  \<open>if (v) taskData.f = new Date(v).toISOString()\<close>: the field is left out for an empty
  value, and \<open>toISOString\<close> raises a RangeError on an invalid date. The payload keeps the
  time value that the ISO text denotes.
\<close>

definition date_field :: "(string \<Rightarrow> int option) \<Rightarrow> string option \<Rightarrow> js_error + int option" where
  "date_field dp v =
     (if truthy v
      then (case TimeClip (dp (or_empty v)) of None \<Rightarrow> Inl RangeError | Some t \<Rightarrow> Inr (Some t))
      else Inr None)"

definition submit :: "(string \<Rightarrow> int option) \<Rightarrow> form \<Rightarrow> task_data \<Rightarrow> state \<Rightarrow> state" where
  "submit dp form taskData s =
     (case date_field dp (form ''start_date'') of
        Inl e \<Rightarrow> throw e s
      | Inr startDate \<Rightarrow>
          (case date_field dp (form ''due_date'') of
             Inl e \<Rightarrow> throw e s
           | Inr dueDate \<Rightarrow>
               fetch (if truthy (form ''id'') then ''PUT'' else ''POST'')
                 (if truthy (form ''id'') then ''/api/tasks/'' @ or_empty (form ''id'')
                  else ''/api/tasks'')
                 (Some (taskData\<lparr>td_start_date := startDate, td_due_date := dueDate\<rparr>)) s))"

text \<open>
  handleTaskSubmission of static/js/task\_manage.js, up to the fetch. In the payload a
  \<open>project_id\<close> of \<open>None\<close> is NaN, which \<open>JSON.stringify\<close> writes as \<open>null\<close>.
\<close>

definition handleTaskSubmission :: "(string \<Rightarrow> int option) \<Rightarrow> form \<Rightarrow> state \<Rightarrow> state" where
  "handleTaskSubmission dp form s =
     (let assigneeId = or_else (form ''assignee_id'') (form ''assignee'');
          taskData =
            \<lparr>td_title = form ''title'', td_description = form ''description'',
             td_type = form ''type'', td_status = form ''status'',
             td_priority = form ''priority'', td_severity = form ''severity'',
             td_project_id = parseInt (or_else (form ''project_id'') (form ''project'')),
             td_assignee_id = (if truthy assigneeId then Some (parseInt assigneeId) else None),
             td_start_date = None, td_due_date = None\<rparr>
      in submit dp form taskData s)"

text \<open>
  handleTaskSubmission of static/js/task\_manage copy.js (its second script), up to the
  fetch: it checks the project before anything is sent.
\<close>

definition chosen :: "string option \<Rightarrow> bool" where
  "chosen v = (truthy v \<and> v \<noteq> Some ''null'' \<and> v \<noteq> Some ''undefined'')"

definition handleTaskSubmission_copy :: "(string \<Rightarrow> int option) \<Rightarrow> form \<Rightarrow> state \<Rightarrow> state" where
  "handleTaskSubmission_copy dp form s =
     (if \<not> chosen (form ''project_id'') then showNotification ''Please select a project'' s
      else
        (let taskData =
            \<lparr>td_title = form ''title'', td_description = form ''description'',
             td_type = form ''type'', td_status = form ''status'',
             td_priority = form ''priority'', td_severity = form ''severity'',
             td_project_id = parseInt (form ''project_id''),
             td_assignee_id = (if chosen (form ''assignee_id'')
                               then Some (parseInt (form ''assignee_id'')) else None),
             td_start_date = None, td_due_date = None\<rparr>
         in submit dp form taskData s))"

subsection \<open>Notions used to state and prove the properties\<close>













text \<open>Concrete inputs for the examples: a parser that accepts no string, and a task.\<close>

definition reject_all :: "string \<Rightarrow> int option" where
  "reject_all s = None"

definition example_task :: "int \<Rightarrow> string option \<Rightarrow> string option \<Rightarrow> task" where
  "example_task i p st =
     \<lparr>task_id = i, title = None, project = None, assignee = None,
      priority = p, status = st, due_date = None\<rparr>"



text \<open>A parser that knows one date, 2024-01-01 (midnight UTC), and no other text.\<close>

definition example_parse :: "string \<Rightarrow> int option" where
  "example_parse s = (if s = ''2024-01-01'' then Some 1704067200000 else None)"

text \<open>The state after the first task list of two tasks has arrived.\<close>

definition loaded_example :: state where
  "loaded_example =
     loadTasks_then reject_all
       (Response 200 (Inr (Bare [example_task 1 (Some ''low'') (Some ''todo''),
                                 example_task 2 (Some ''high'') (Some ''done'')])))
       initial_state"

text \<open>The form of a new task on which no project has been chosen.\<close>

definition create_form :: form where
  "create_form k =
     (if k = ''id'' then Some []
      else if k = ''title'' then Some ''Fix login''
      else if k = ''description'' then Some []
      else if k = ''type'' then Some ''task''
      else if k = ''status'' then Some ''todo''
      else if k = ''priority'' then Some ''medium''
      else if k = ''severity'' then Some ''normal''
      else if k = ''project_id'' then Some []
      else if k = ''assignee_id'' then Some []
      else if k = ''start_date'' then Some ''2024-01-01''
      else if k = ''due_date'' then Some []
      else None)"

text \<open>
  A fetch of the task list that fails: the request is rejected, the status is not in
  200..299, or the body cannot be read as JSON.
\<close>

definition load_failed :: "tasks_json response \<Rightarrow> bool" where
  "load_failed r =
     (case r of
        NetworkError m \<Rightarrow> True
      | Response st body \<Rightarrow> (case body of Inl m \<Rightarrow> True | Inr d \<Rightarrow> \<not> response_ok st))"

text \<open>
  The selection and the collection: the selected id is \<open>null\<close> or the id of a task
  of the list, and every row of the table shows a task of the list.
\<close>

definition row_ids :: "state \<Rightarrow> int list" where
  "row_ids s = map row_task_id (table_rows s)"

definition selection_in_collection :: "state \<Rightarrow> bool" where
  "selection_in_collection s =
     (case selectedTaskId s of None \<Rightarrow> True | Some i \<Rightarrow> i \<in> set (map task_id (tasks s)))"

definition rows_in_collection :: "state \<Rightarrow> bool" where
  "rows_in_collection s = list_all (\<lambda>i. i \<in> set (map task_id (tasks s))) (row_ids s)"

definition selection_invariant :: "state \<Rightarrow> bool" where
  "selection_invariant s = (selection_in_collection s \<and> rows_in_collection s)"

text \<open>A response to the request for one task that, when it carries a task, carries that one.\<close>

definition answers :: "int \<Rightarrow> task response \<Rightarrow> bool" where
  "answers taskId r =
     (case r of
        NetworkError m \<Rightarrow> True
      | Response st body \<Rightarrow> (case body of Inl m \<Rightarrow> True | Inr t \<Rightarrow> task_id t = taskId))"

text \<open>The second row clicked; then a task list arrives that lacks the selected task.\<close>

definition selected_example :: state where
  "selected_example = handleTaskRowClick (Some 1) loaded_example"

definition stale_example :: state where
  "stale_example =
     loadTasks_then reject_all
       (Response 200 (Inr (Bare [example_task 1 (Some ''low'') (Some ''todo'')])))
       selected_example"

section \<open>Properties\<close>

subsection \<open>Sorting with a consistent comparator\<close>


lemma set_place: "set (place cmp x ys) = insert x (set ys)"
  by (induction ys) auto


lemma set_Array_sort: "set (Array_sort cmp xs) = set xs"
  by (induction xs) (auto simp: Array_sort_def set_place)









subsection \<open>The comparator of sortTasks\<close>


lemma StringToNumber_empty: "StringToNumber [] = Some 0"
  by (simp add: StringToNumber_def trim_def)













subsection \<open>Sorting by rank\<close>









subsection \<open>Toggling the direction; values without a rank\<close>





lemmas eval_sort =
  example_task_def sortTasks_def sort_header_click_def renderTasksTable_def render_row_def
  Array_sort_def compareTasks_def sort_value_def get_property_def priorityOrder_def
  statusOrder_def Object_prototype_def property_key_def coerce_missing_def js_lt_def js_gt_def
  StringToNumber_empty Let_def







subsection \<open>The query, the selection, dates, submission and deletion\<close>

lemma filter_param_mem:
  "(k, v) \<in> set (filter_param name x) \<longleftrightarrow> k = name \<and> x = Some v \<and> v \<noteq> [] \<and> v \<noteq> ''all''"
  by (cases x) (auto simp: filter_param_def truthy_def or_empty_def)

lemma search_param_mem:
  "(k, v) \<in> set (search_param x) \<longleftrightarrow> k = ''search_text'' \<and> x = Some v \<and> v \<noteq> []"
  by (cases x) (auto simp: search_param_def truthy_def or_empty_def)

lemma filter_param_names: "map fst (filter_param name x) = (if truthy x \<and> x \<noteq> Some ''all'' then [name] else [])"
  by (simp add: filter_param_def)

lemma search_param_names: "map fst (search_param x) = (if truthy x then [''search_text''] else [])"
  by (simp add: search_param_def)

lemma subseq_optional:
  "subseq xs ys \<Longrightarrow> subseq ((if c then [a] else []) @ xs) (a # ys)"
  by (auto intro: list_emb_Cons)

lemma parameter_names_in_order:
  "subseq (map fst (loadTasks_params s))
     [''status'', ''assignee'', ''project'', ''priority'', ''search_text'']"
  unfolding loadTasks_params_def map_append filter_param_names search_param_names
  by (intro subseq_optional) simp

lemma project_7_query: "URLSearchParams_toString [(''project'', ''7'')] = ''project=7''"
  by code_simp

text \<open>
  Claim C2, as amended. The query of loadTasks has the parameter \<open>status\<close>,
  \<open>assignee\<close>, \<open>project\<close> or \<open>priority\<close> with the value \<open>v\<close> if and only if the
  control has the value \<open>v\<close> and \<open>v\<close> is neither empty nor \<open>all\<close>; it has the parameter
  \<open>search_text\<close> with the value \<open>v\<close> if and only if the search box has the value \<open>v\<close>
  and \<open>v\<close> is not empty. The names occur in the order status, assignee, project,
  priority, search\_text, each at most once. The request is a GET of \<open>/api/tasks?\<close>
  followed by the encoded parameters, and the filters \<open>{status: 'all', project: '7'}\<close>
  give exactly \<open>project=7\<close>.
\<close>

theorem loadTasks_query_parameters:
  "((''status'', v) \<in> set (loadTasks_params s) \<longleftrightarrow>
      statusFilter s = Some v \<and> v \<noteq> [] \<and> v \<noteq> ''all'') \<and>
   ((''assignee'', v) \<in> set (loadTasks_params s) \<longleftrightarrow>
      assigneeFilter s = Some v \<and> v \<noteq> [] \<and> v \<noteq> ''all'') \<and>
   ((''project'', v) \<in> set (loadTasks_params s) \<longleftrightarrow>
      projectFilter s = Some v \<and> v \<noteq> [] \<and> v \<noteq> ''all'') \<and>
   ((''priority'', v) \<in> set (loadTasks_params s) \<longleftrightarrow>
      priorityFilter s = Some v \<and> v \<noteq> [] \<and> v \<noteq> ''all'') \<and>
   ((''search_text'', v) \<in> set (loadTasks_params s) \<longleftrightarrow> textSearch s = Some v \<and> v \<noteq> []) \<and>
   subseq (map fst (loadTasks_params s))
     [''status'', ''assignee'', ''project'', ''priority'', ''search_text''] \<and>
   requests (loadTasks s) =
     requests s @ [\<lparr>req_method = ''GET'',
                    req_url = ''/api/tasks?'' @ URLSearchParams_toString (loadTasks_params s),
                    req_body = None\<rparr>] \<and>
   URLSearchParams_toString
     (loadTasks_params (s\<lparr>statusFilter := Some ''all'', assigneeFilter := None,
                           projectFilter := Some ''7'', priorityFilter := None,
                           textSearch := None\<rparr>)) = ''project=7''"
proof (intro conjI)
  show "subseq (map fst (loadTasks_params s))
     [''status'', ''assignee'', ''project'', ''priority'', ''search_text'']"
    by (rule parameter_names_in_order)
  show "URLSearchParams_toString
     (loadTasks_params (s\<lparr>statusFilter := Some ''all'', assigneeFilter := None,
                           projectFilter := Some ''7'', priorityFilter := None,
                           textSearch := None\<rparr>)) = ''project=7''"
    by (simp add: loadTasks_params_def filter_param_def search_param_def truthy_def or_empty_def
        project_7_query del: URLSearchParams_toString.simps)
  show "requests (loadTasks s) =
     requests s @ [\<lparr>req_method = ''GET'',
                    req_url = ''/api/tasks?'' @ URLSearchParams_toString (loadTasks_params s),
                    req_body = None\<rparr>]"
    by (simp add: loadTasks_def fetch_def)
qed (simp_all add: loadTasks_params_def filter_param_mem search_param_mem)

text \<open>
  Where the claim C2 fails as stated: the search text \<open>all\<close> is a parameter of the
  query, since only emptiness is tested for the search box.
\<close>

theorem search_text_all_is_sent:
  "loadTasks_params (initial_state\<lparr>textSearch := Some ''all''\<rparr>) = [(''search_text'', ''all'')] \<and>
   map req_url (requests (loadTasks (initial_state\<lparr>textSearch := Some ''all''\<rparr>))) =
     [''/api/tasks?search_text=all'']"
  by code_simp

lemma set_rows_frame [simp]:
  "selectedTaskId (set_rows rs s) = selectedTaskId s"
  "detailVisible (set_rows rs s) = detailVisible s"
  "tasks (set_rows rs s) = tasks s"
  "alerts (set_rows rs s) = alerts s"
  "requests (set_rows rs s) = requests s"
  "taskDetailContainer (set_rows rs s) = taskDetailContainer s"
  "tasksCount (set_rows rs s) = tasksCount s"
  by (simp_all add: set_rows_def split: option.splits table_body.splits)

lemma mark_row_frame [simp]:
  "selectedTaskId (mark_row i b s) = selectedTaskId s"
  "detailVisible (mark_row i b s) = detailVisible s"
  "tasks (mark_row i b s) = tasks s"
  "alerts (mark_row i b s) = alerts s"
  "requests (mark_row i b s) = requests s"
  "taskDetailContainer (mark_row i b s) = taskDetailContainer s"
  by (simp_all add: mark_row_def)

lemma unmark_all_frame [simp]:
  "selectedTaskId (unmark_all s) = selectedTaskId s"
  "detailVisible (unmark_all s) = detailVisible s"
  "tasks (unmark_all s) = tasks s"
  "alerts (unmark_all s) = alerts s"
  "requests (unmark_all s) = requests s"
  "taskDetailContainer (unmark_all s) = taskDetailContainer s"
  by (simp_all add: unmark_all_def)

lemma unmark_first_frame [simp]:
  "selectedTaskId (unmark_first n s) = selectedTaskId s"
  "detailVisible (unmark_first n s) = detailVisible s"
  "tasks (unmark_first n s) = tasks s"
  "alerts (unmark_first n s) = alerts s"
  "requests (unmark_first n s) = requests s"
  "taskDetailContainer (unmark_first n s) = taskDetailContainer s"
  by (simp_all add: unmark_first_def split: option.splits)

lemma remove_first_row_frame [simp]:
  "selectedTaskId (remove_first_row n s) = selectedTaskId s"
  "detailVisible (remove_first_row n s) = detailVisible s"
  "tasks (remove_first_row n s) = tasks s"
  "alerts (remove_first_row n s) = alerts s"
  "requests (remove_first_row n s) = requests s"
  "taskDetailContainer (remove_first_row n s) = taskDetailContainer s"
  by (simp_all add: remove_first_row_def split: option.splits)

lemma set_maxHeight_frame [simp]:
  "selectedTaskId (set_maxHeight v s) = selectedTaskId s"
  "detailVisible (set_maxHeight v s) = detailVisible s"
  "tasks (set_maxHeight v s) = tasks s"
  "alerts (set_maxHeight v s) = alerts s"
  "requests (set_maxHeight v s) = requests s"
  "taskDetailContainer (set_maxHeight v s) = taskDetailContainer s"
  "tasksTableBody (set_maxHeight v s) = tasksTableBody s"
  "tasksCount (set_maxHeight v s) = tasksCount s"
  by (simp_all add: set_maxHeight_def split: option.splits)

lemma throw_frame [simp]:
  "selectedTaskId (throw e s) = selectedTaskId s"
  "detailVisible (throw e s) = detailVisible s"
  "tasks (throw e s) = tasks s"
  "alerts (throw e s) = alerts s"
  "requests (throw e s) = requests s"
  "tasksTableBody (throw e s) = tasksTableBody s"
  "tasksCount (throw e s) = tasksCount s"
  by (simp_all add: throw_def)

lemma fetch_frame [simp]:
  "selectedTaskId (fetch m u b s) = selectedTaskId s"
  "detailVisible (fetch m u b s) = detailVisible s"
  "tasks (fetch m u b s) = tasks s"
  "alerts (fetch m u b s) = alerts s"
  "tasksTableBody (fetch m u b s) = tasksTableBody s"
  "tasksCount (fetch m u b s) = tasksCount s"
  "requests (fetch m u b s) = requests s @ [\<lparr>req_method = m, req_url = u, req_body = b\<rparr>]"
  by (simp_all add: fetch_def)

lemma showNotification_frame [simp]:
  "selectedTaskId (showNotification m s) = selectedTaskId s"
  "detailVisible (showNotification m s) = detailVisible s"
  "tasks (showNotification m s) = tasks s"
  "requests (showNotification m s) = requests s"
  "tasksTableBody (showNotification m s) = tasksTableBody s"
  "tasksCount (showNotification m s) = tasksCount s"
  "alerts (showNotification m s) = alerts s @ [m]"
  by (simp_all add: showNotification_def)

lemma showErrorNotification_frame [simp]:
  "selectedTaskId (showErrorNotification m s) = selectedTaskId s"
  "detailVisible (showErrorNotification m s) = detailVisible s"
  "tasks (showErrorNotification m s) = tasks s"
  "requests (showErrorNotification m s) = requests s"
  "tasksTableBody (showErrorNotification m s) = tasksTableBody s"
  "tasksCount (showErrorNotification m s) = tasksCount s"
  "alerts (showErrorNotification m s) = alerts s @ [m]"
  by (simp_all add: showErrorNotification_def)

lemma renderTasksTable_frame [simp]:
  "selectedTaskId (renderTasksTable ts s) = selectedTaskId s"
  "detailVisible (renderTasksTable ts s) = detailVisible s"
  "alerts (renderTasksTable ts s) = alerts s"
  "requests (renderTasksTable ts s) = requests s"
  by (simp_all add: renderTasksTable_def)

lemma loads_frame [simp]:
  "selectedTaskId (loadTaskDetails i s) = selectedTaskId s"
  "detailVisible (loadTaskDetails i s) = detailVisible s"
  "tasks (loadTaskDetails i s) = tasks s"
  "alerts (loadTaskDetails i s) = alerts s"
  "tasksTableBody (loadTaskDetails i s) = tasksTableBody s"
  "selectedTaskId (loadComments i s) = selectedTaskId s"
  "detailVisible (loadComments i s) = detailVisible s"
  "tasks (loadComments i s) = tasks s"
  "alerts (loadComments i s) = alerts s"
  "tasksTableBody (loadComments i s) = tasksTableBody s"
  by (simp_all add: loadTaskDetails_def loadComments_def)

lemma closeTaskDetail_frame [simp]:
  "selectedTaskId (closeTaskDetail s) = None"
  "detailVisible (closeTaskDetail s) = False"
  "tasks (closeTaskDetail s) = tasks s"
  "alerts (closeTaskDetail s) = alerts s"
  "requests (closeTaskDetail s) = requests s"
  by (simp_all add: closeTaskDetail_def Let_def split: option.splits)

lemma clicked_row_selected:
  "clicked_row target s = Some (i, row) \<Longrightarrow>
   selectedTaskId (handleTaskRowClick target s) = Some (row_task_id row)"
  by (simp add: handleTaskRowClick_def Let_def split: option.splits)

lemma clicked_row_visible:
  "clicked_row target s = Some (i, row) \<Longrightarrow>
   detailVisible (handleTaskRowClick target s) =
     (if selectedTaskId s = Some (row_task_id row) then \<not> detailVisible s else True)"
  by (simp add: handleTaskRowClick_def Let_def split: option.splits)

text \<open>
  Claim C4. A click on a row that carries a task id makes that id the selected one. When
  it was the selected one already, the visibility of the detail panel is toggled and the
  selected id stays; otherwise the detail panel becomes visible.
\<close>

theorem handleTaskRowClick_selection:
  assumes "clicked_row target s = Some (i, row)"
  shows "selectedTaskId (handleTaskRowClick target s) = Some (row_task_id row) \<and>
         detailVisible (handleTaskRowClick target s) =
           (if selectedTaskId s = Some (row_task_id row) then \<not> detailVisible s else True)"
  using assms by (simp add: clicked_row_selected clicked_row_visible)

lemma loaded_example_rows:
  "table_rows loaded_example =
     [\<lparr>row_task_id = 1, row_selected = False\<rparr>, \<lparr>row_task_id = 2, row_selected = False\<rparr>]"
  "selectedTaskId loaded_example = None"
  "detailVisible loaded_example = False"
  by (simp_all add: loaded_example_def loadTasks_then_def response_ok_def sortTasks_def
      initial_state_def table_rows_def eval_sort toLowerCase_def or_empty_def)

theorem handleTaskRowClick_selection_witness:
  "selectedTaskId (handleTaskRowClick (Some 1) loaded_example) = Some 2 \<and>
   detailVisible (handleTaskRowClick (Some 1) loaded_example) = True"
proof -
  have h: "clicked_row (Some 1) loaded_example = Some (1, \<lparr>row_task_id = 2, row_selected = False\<rparr>)"
    by (simp add: clicked_row_def loaded_example_rows)
  from handleTaskRowClick_selection[OF h] show ?thesis
    by (simp add: loaded_example_rows)
qed

lemma String_of_None: "String_of None = ''NaN''"
  by (simp add: String_of_def)

text \<open>
  Claim C5. formatDate returns \<open>Not set\<close> for \<open>null\<close>, \<open>undefined\<close> and the empty
  string. For a text that \<open>Date.parse\<close> rejects it returns \<open>NaN-NaN-NaN\<close> and not
  \<open>Invalid date\<close>: nothing is raised, so the \<open>catch\<close> branch is never taken.
\<close>

theorem formatDate_unparsed_text:
  "formatDate dp None = ''Not set'' \<and> formatDate dp (Some []) = ''Not set'' \<and>
   (s \<noteq> [] \<and> dp s = None \<longrightarrow> formatDate dp (Some s) = ''NaN-NaN-NaN'')"
  by (simp add: formatDate_def truthy_def or_empty_def TimeClip_def getUTCFullYear_def
      getUTCMonth_def getUTCDate_def String_of_None padStart2_def)

theorem formatDate_unparsed_text_witness:
  "formatDate example_parse (Some ''not a date'') = ''NaN-NaN-NaN'' \<and>
   formatDate example_parse None = ''Not set''"
  using formatDate_unparsed_text[of example_parse "''not a date''"]
  by (simp add: example_parse_def)

lemma parseInt_falsy: "\<not> truthy x \<Longrightarrow> parseInt x = None"
  by (cases x) (simp_all add: truthy_def parseInt_def is_space_def is_digit_def digits_value_def)

lemma or_else_falsy: "\<not> truthy x \<Longrightarrow> \<not> truthy y \<Longrightarrow> \<not> truthy (or_else x y)"
  by (simp add: or_else_def)

text \<open>
  Claim C6. On a form in create mode (no id) with no project chosen and dates that are
  empty or valid, handleTaskSubmission of static/js/task\_manage.js shows no message and
  sends a POST to \<open>/api/tasks\<close> whose \<open>project_id\<close> is NaN, whereas
  handleTaskSubmission of static/js/task\_manage copy.js sends nothing and shows
  \<open>Please select a project\<close>.
\<close>

theorem handleTaskSubmission_sends_without_project:
  assumes "\<not> truthy (form ''id'')"
    and "\<not> truthy (form ''project_id'')" and "\<not> truthy (form ''project'')"
    and "date_field dp (form ''start_date'') = Inr a"
    and "date_field dp (form ''due_date'') = Inr b"
  shows "map req_method (requests (handleTaskSubmission dp form s)) =
           map req_method (requests s) @ [''POST''] \<and>
         map req_url (requests (handleTaskSubmission dp form s)) =
           map req_url (requests s) @ [''/api/tasks''] \<and>
         map (map_option td_project_id \<circ> req_body) (requests (handleTaskSubmission dp form s)) =
           map (map_option td_project_id \<circ> req_body) (requests s) @ [Some None] \<and>
         alerts (handleTaskSubmission dp form s) = alerts s \<and>
         requests (handleTaskSubmission_copy dp form s) = requests s \<and>
         alerts (handleTaskSubmission_copy dp form s) = alerts s @ [''Please select a project'']"
  using assms
  by (simp add: handleTaskSubmission_def handleTaskSubmission_copy_def submit_def Let_def
      chosen_def parseInt_falsy or_else_falsy)

theorem handleTaskSubmission_sends_without_project_witness:
  "map req_method (requests (handleTaskSubmission example_parse create_form initial_state)) =
     [''POST''] \<and>
   map req_url (requests (handleTaskSubmission example_parse create_form initial_state)) =
     [''/api/tasks''] \<and>
   map (map_option td_project_id \<circ> req_body)
     (requests (handleTaskSubmission example_parse create_form initial_state)) = [Some None] \<and>
   alerts (handleTaskSubmission example_parse create_form initial_state) = [] \<and>
   requests (handleTaskSubmission_copy example_parse create_form initial_state) = [] \<and>
   alerts (handleTaskSubmission_copy example_parse create_form initial_state) =
     [''Please select a project'']"
proof -
  have h: "\<not> truthy (create_form ''id'')" "\<not> truthy (create_form ''project_id'')"
    "\<not> truthy (create_form ''project'')"
    "date_field example_parse (create_form ''start_date'') = Inr (Some 1704067200000)"
    "date_field example_parse (create_form ''due_date'') = Inr None"
    by (simp_all add: create_form_def truthy_def date_field_def example_parse_def or_empty_def
        TimeClip_def)
  from handleTaskSubmission_sends_without_project[OF h, of initial_state]
  show ?thesis by (simp add: initial_state_def)
qed

text \<open>
  Claim C7. When the DELETE of a task succeeds, the selected id becomes \<open>null\<close> and the
  detail panel invisible if the deleted id was the selected one, and both stay as they
  were otherwise. The request is sent only after the confirmation.
\<close>

theorem deleteTask_clears_selection:
  assumes "response_ok st"
  shows "selectedTaskId (deleteTask_then taskId (Response st body) s) =
           (if selectedTaskId s = Some taskId then None else selectedTaskId s) \<and>
         detailVisible (deleteTask_then taskId (Response st body) s) =
           (if selectedTaskId s = Some taskId then False else detailVisible s) \<and>
         requests (deleteTask True taskId s) =
           requests s @ [\<lparr>req_method = ''DELETE'',
                          req_url = ''/api/tasks/'' @ Number_toString taskId,
                          req_body = None\<rparr>] \<and>
         deleteTask False taskId s = s"
  using assms by (simp add: deleteTask_then_def deleteTask_def Let_def)

text \<open>
  Claim C9. When the fetch of loadTasks fails, on a page that has the table body and the
  counter, the table body becomes the placeholder row \<open>No tasks found\<close> (no task row is
  left), the counter shows 0, and the message \<open>Failed to load tasks. Please try again
  later.\<close> is shown. The task list in memory stays as it was.
\<close>

theorem loadTasks_failure_shows_empty_state:
  assumes "load_failed r" and "tasksTableBody s = Some tb" and "tasksCount s = Some n"
  shows "tasksTableBody (loadTasks_then dp r s) = Some Placeholder \<and>
         tasksCount (loadTasks_then dp r s) = Some 0 \<and>
         table_rows (loadTasks_then dp r s) = [] \<and>
         alerts (loadTasks_then dp r s) =
           alerts s @ [''Failed to load tasks. Please try again later.''] \<and>
         tasks (loadTasks_then dp r s) = tasks s"
  using assms
  by (auto simp: load_failed_def loadTasks_then_def loadTasks_catch_def renderTasksTable_def
      table_rows_def split: response.splits sum.splits)

lemma find_index_Some:
  "find_index P xs = Some i \<Longrightarrow> i < length xs \<and> P (xs ! i)"
proof (induction xs arbitrary: i)
  case Nil
  then show ?case by simp
next
  case (Cons x xs)
  then show ?case by (cases "P x") (auto split: if_splits)
qed

lemma table_rows_set_rows:
  "table_rows (set_rows rs s) =
     (case tasksTableBody s of Some (Rows old) \<Rightarrow> rs | _ \<Rightarrow> [])"
  by (simp add: table_rows_def set_rows_def split: option.splits table_body.splits)

lemma row_ids_set_rows:
  "map row_task_id rs = row_ids s \<Longrightarrow> row_ids (set_rows rs s) = row_ids s"
proof (cases "tasksTableBody s")
  case None
  then show ?thesis by (simp add: row_ids_def table_rows_def set_rows_def)
next
  case (Some tb)
  assume rs: "map row_task_id rs = row_ids s"
  show ?thesis
  proof (cases tb)
    case Placeholder
    with Some show ?thesis by (simp add: row_ids_def table_rows_def set_rows_def)
  next
    case (Rows old)
    with Some rs show ?thesis by (simp add: row_ids_def table_rows_def set_rows_def)
  qed
qed

lemma map_update_same: "map f (xs[i := g (xs ! i)]) = map f xs" if "\<And>x. f (g x) = f x"
proof (cases "i < length xs")
  case True
  then show ?thesis by (simp add: map_update that list_update_same_conv)
next
  case False
  then show ?thesis by (simp add: list_update_beyond)
qed

lemma row_ids_mark_row [simp]: "row_ids (mark_row i b s) = row_ids s"
proof (cases "i < length (table_rows s)")
  case True
  have "row_ids (set_rows ((table_rows s)[i := (table_rows s ! i)\<lparr>row_selected := b\<rparr>]) s) =
      row_ids s"
    by (rule row_ids_set_rows) (simp add: row_ids_def map_update_same)
  with True show ?thesis by (simp add: mark_row_def)
next
  case False
  then show ?thesis by (simp add: mark_row_def)
qed

lemma row_ids_unmark_all [simp]: "row_ids (unmark_all s) = row_ids s"
  unfolding unmark_all_def
  by (rule row_ids_set_rows) (simp add: row_ids_def)

lemma row_ids_unmark_first [simp]: "row_ids (unmark_first n s) = row_ids s"
  by (simp add: unmark_first_def split: option.splits)

lemma row_ids_remove_first_row: "set (row_ids (remove_first_row n s)) \<subseteq> set (row_ids s)"
proof (cases "find_index (\<lambda>r. row_task_id r = n) (table_rows s)")
  case None
  then show ?thesis by (simp add: remove_first_row_def)
next
  case (Some i)
  have "set (take i (table_rows s) @ drop (Suc i) (table_rows s)) \<subseteq> set (table_rows s)"
    using set_take_subset[of i "table_rows s"] set_drop_subset[of "Suc i" "table_rows s"]
    by auto
  then show ?thesis
    using Some
    by (auto simp: remove_first_row_def row_ids_def table_rows_set_rows
        split: option.splits table_body.splits)
qed

lemma row_ids_cong: "tasksTableBody s' = tasksTableBody s \<Longrightarrow> row_ids s' = row_ids s"
  by (simp add: row_ids_def table_rows_def)

lemma row_ids_frame [simp]:
  "row_ids (set_maxHeight v s) = row_ids s"
  "row_ids (throw e s) = row_ids s"
  "row_ids (fetch m u b s) = row_ids s"
  "row_ids (showNotification msg s) = row_ids s"
  "row_ids (showErrorNotification msg s) = row_ids s"
  "row_ids (loadTaskDetails i s) = row_ids s"
  "row_ids (loadComments i s) = row_ids s"
  "row_ids (s\<lparr>taskDetailContainer := c\<rparr>) = row_ids s"
  "row_ids (s\<lparr>selectedTaskId := x\<rparr>) = row_ids s"
  "row_ids (s\<lparr>detailVisible := d\<rparr>) = row_ids s"
  "row_ids (s\<lparr>tasks := ts\<rparr>) = row_ids s"
  by (simp_all add: row_ids_def table_rows_def loadTaskDetails_def loadComments_def)

lemma row_ids_closeTaskDetail [simp]: "row_ids (closeTaskDetail s) = row_ids s"
  by (simp add: closeTaskDetail_def Let_def split: option.splits)

lemma row_ids_renderTasksTable:
  "row_ids (renderTasksTable ts s) =
     (if tasksTableBody s = None \<or> tasksCount s = None then row_ids s else map task_id ts)"
  by (simp add: renderTasksTable_def row_ids_def table_rows_def render_row_def comp_def)

lemma tasks_renderTasksTable [simp]: "tasks (renderTasksTable ts s) = tasks s"
  by (simp add: renderTasksTable_def)

lemma tasks_handleTaskRowClick [simp]: "tasks (handleTaskRowClick target s) = tasks s"
  by (simp add: handleTaskRowClick_def Let_def split: option.splits prod.splits)

lemma row_ids_handleTaskRowClick [simp]: "row_ids (handleTaskRowClick target s) = row_ids s"
  by (simp add: handleTaskRowClick_def Let_def split: option.splits prod.splits)

lemma clicked_row_id:
  "clicked_row target s = Some (i, row) \<Longrightarrow> row_task_id row \<in> set (row_ids s)"
  by (auto simp: clicked_row_def row_ids_def split: option.splits if_splits)

lemma invariant_iff:
  "selection_invariant s \<longleftrightarrow>
     (\<forall>i. selectedTaskId s = Some i \<longrightarrow> i \<in> task_id ` set (tasks s)) \<and>
     set (row_ids s) \<subseteq> task_id ` set (tasks s)"
  by (auto simp: selection_invariant_def selection_in_collection_def rows_in_collection_def
      list_all_iff split: option.splits)

lemma invariant_kept:
  assumes "selection_invariant s"
    and "task_id ` set (tasks s') = task_id ` set (tasks s)"
    and "selectedTaskId s' = None \<or> selectedTaskId s' = selectedTaskId s \<or>
         (\<exists>i\<in>set (row_ids s). selectedTaskId s' = Some i)"
    and "set (row_ids s') \<subseteq> set (row_ids s) \<union> task_id ` set (tasks s)"
  shows "selection_invariant s'"
  using assms unfolding invariant_iff by auto

lemma inv_handleTaskRowClick:
  assumes "selection_invariant s"
  shows "selection_invariant (handleTaskRowClick target s)"
proof (cases "clicked_row target s")
  case None
  with assms show ?thesis by (simp add: handleTaskRowClick_def)
next
  case (Some p)
  obtain i row where p: "p = (i, row)" by (cases p)
  show ?thesis
  proof (rule invariant_kept[OF assms])
    show "selectedTaskId (handleTaskRowClick target s) = None \<or>
      selectedTaskId (handleTaskRowClick target s) = selectedTaskId s \<or>
      (\<exists>i\<in>set (row_ids s). selectedTaskId (handleTaskRowClick target s) = Some i)"
      using clicked_row_selected[OF Some[unfolded p]] clicked_row_id[OF Some[unfolded p]]
      by blast
  qed simp_all
qed

lemma inv_closeTaskDetail:
  "selection_invariant s \<Longrightarrow> selection_invariant (closeTaskDetail s)"
  by (erule invariant_kept) simp_all

lemma set_tasks_sortTasks: "set (tasks (sortTasks dp s)) = set (tasks s)"
  by (simp add: sortTasks_def set_Array_sort)

lemma sortTasks_frame [simp]:
  "selectedTaskId (sortTasks dp s) = selectedTaskId s"
  "detailVisible (sortTasks dp s) = detailVisible s"
  "row_ids (sortTasks dp s) = row_ids s"
  "tasksTableBody (sortTasks dp s) = tasksTableBody s"
  "tasksCount (sortTasks dp s) = tasksCount s"
  by (simp_all add: sortTasks_def row_ids_def table_rows_def)

lemma sort_header_click_facts:
  "set (tasks (sort_header_click dp field s)) = set (tasks s)"
  "selectedTaskId (sort_header_click dp field s) = selectedTaskId s"
  "set (row_ids (sort_header_click dp field s)) \<subseteq> set (row_ids s) \<union> task_id ` set (tasks s)"
proof -
  define s1 where "s1 = (if field = currentSortField s
                then s\<lparr>currentSortDirection :=
                        (if currentSortDirection s = ''asc'' then ''desc'' else ''asc'')\<rparr>
                else s\<lparr>currentSortField := field, currentSortDirection := ''asc''\<rparr>)"
  have s1: "tasks s1 = tasks s" "selectedTaskId s1 = selectedTaskId s" "row_ids s1 = row_ids s"
    by (simp_all add: s1_def row_ids_def table_rows_def)
  have eq: "sort_header_click dp field s =
      renderTasksTable (tasks (sortTasks dp s1)) (sortTasks dp s1)"
    by (simp add: sort_header_click_def s1_def Let_def)
  show "set (tasks (sort_header_click dp field s)) = set (tasks s)"
    by (simp add: eq set_tasks_sortTasks s1)
  show "selectedTaskId (sort_header_click dp field s) = selectedTaskId s"
    by (simp add: eq s1)
  show "set (row_ids (sort_header_click dp field s)) \<subseteq> set (row_ids s) \<union> task_id ` set (tasks s)"
    by (simp add: eq row_ids_renderTasksTable set_tasks_sortTasks s1)
qed

lemma inv_sort_header_click:
  "selection_invariant s \<Longrightarrow> selection_invariant (sort_header_click dp field s)"
  by (erule invariant_kept) (simp_all add: sort_header_click_facts)

lemma inv_deleteTask:
  "selection_invariant s \<Longrightarrow> selection_invariant (deleteTask confirmed taskId s)"
  by (erule invariant_kept) (simp_all add: deleteTask_def)

lemma deleteTask_then_facts:
  "tasks (deleteTask_then taskId r s) = tasks s"
  "selectedTaskId (deleteTask_then taskId r s) = None \<or>
     selectedTaskId (deleteTask_then taskId r s) = selectedTaskId s"
  "set (row_ids (deleteTask_then taskId r s)) \<subseteq> set (row_ids s)"
proof -
  show "tasks (deleteTask_then taskId r s) = tasks s"
    by (simp add: deleteTask_then_def Let_def split: response.splits sum.splits)
  show "selectedTaskId (deleteTask_then taskId r s) = None \<or>
     selectedTaskId (deleteTask_then taskId r s) = selectedTaskId s"
    by (simp add: deleteTask_then_def Let_def split: response.splits sum.splits)
  have "row_ids (deleteTask_then taskId r s) = row_ids s \<or>
      row_ids (deleteTask_then taskId r s) = row_ids (remove_first_row taskId s)"
    by (simp add: deleteTask_then_def Let_def split: response.splits sum.splits)
  then show "set (row_ids (deleteTask_then taskId r s)) \<subseteq> set (row_ids s)"
    using row_ids_remove_first_row[of taskId s] by auto
qed

lemma inv_deleteTask_then:
  "selection_invariant s \<Longrightarrow> selection_invariant (deleteTask_then taskId r s)"
  using deleteTask_then_facts[of taskId r s] by (auto elim!: invariant_kept)

lemma inv_loadTasks: "selection_invariant s \<Longrightarrow> selection_invariant (loadTasks s)"
  by (erule invariant_kept) (simp_all add: loadTasks_def)

lemma loadTasks_catch_facts [simp]:
  "tasks (loadTasks_catch s) = tasks s"
  "selectedTaskId (loadTasks_catch s) = selectedTaskId s"
  by (simp_all add: loadTasks_catch_def)

lemma row_ids_loadTasks_catch: "set (row_ids (loadTasks_catch s)) \<subseteq> set (row_ids s)"
  by (simp add: loadTasks_catch_def row_ids_renderTasksTable)

lemma inv_loadTasks_catch:
  "selection_invariant s \<Longrightarrow> selection_invariant (loadTasks_catch s)"
  using row_ids_loadTasks_catch[of s] by (auto elim!: invariant_kept)

lemma loadTasks_then_selected: "selectedTaskId (loadTasks_then dp r s) = selectedTaskId s"
  by (simp add: loadTasks_then_def Let_def split: response.splits sum.splits)

lemma inv_loadTasks_then_failed:
  "load_failed r \<Longrightarrow> selection_invariant s \<Longrightarrow> selection_invariant (loadTasks_then dp r s)"
  by (auto simp: load_failed_def loadTasks_then_def inv_loadTasks_catch
      split: response.splits sum.splits)

lemma loadTasks_then_success:
  assumes "response_ok st"
  shows "set (tasks (loadTasks_then dp (Response st (Inr data)) s)) = set (tasks_of data)"
    and "row_ids (loadTasks_then dp (Response st (Inr data)) s) =
      (if tasksTableBody s = None \<or> tasksCount s = None then row_ids s
       else map task_id (tasks (loadTasks_then dp (Response st (Inr data)) s)))"
proof -
  let ?s1 = "sortTasks dp (s\<lparr>tasks := tasks_of data\<rparr>)"
  have eq: "loadTasks_then dp (Response st (Inr data)) s = renderTasksTable (tasks ?s1) ?s1"
    using assms by (simp add: loadTasks_then_def Let_def)
  show "set (tasks (loadTasks_then dp (Response st (Inr data)) s)) = set (tasks_of data)"
    by (simp add: eq set_tasks_sortTasks)
  show "row_ids (loadTasks_then dp (Response st (Inr data)) s) =
      (if tasksTableBody s = None \<or> tasksCount s = None then row_ids s
       else map task_id (tasks (loadTasks_then dp (Response st (Inr data)) s)))"
    by (simp add: eq row_ids_renderTasksTable)
qed

lemma selection_after_loadTasks:
  assumes "response_ok st"
  shows "selection_in_collection (loadTasks_then dp (Response st (Inr data)) s) =
     (case selectedTaskId s of None \<Rightarrow> True | Some i \<Rightarrow> i \<in> set (map task_id (tasks_of data)))"
proof (cases "selectedTaskId s")
  case None
  then show ?thesis by (simp add: selection_in_collection_def loadTasks_then_selected)
next
  case (Some i)
  then show ?thesis
    by (simp add: selection_in_collection_def loadTasks_then_selected
        loadTasks_then_success(1)[OF assms])
qed

lemma rows_after_loadTasks:
  assumes "response_ok st" "tasksCount s \<noteq> None"
  shows "rows_in_collection (loadTasks_then dp (Response st (Inr data)) s)"
proof (cases "tasksTableBody s = None")
  case True
  then have "row_ids s = []" by (simp add: row_ids_def table_rows_def)
  with True show ?thesis
    by (simp add: rows_in_collection_def loadTasks_then_success(2)[OF assms(1)])
next
  case False
  with assms(2) have "row_ids (loadTasks_then dp (Response st (Inr data)) s) =
      map task_id (tasks (loadTasks_then dp (Response st (Inr data)) s))"
    by (auto simp: loadTasks_then_success(2)[OF assms(1)])
  then show ?thesis by (simp add: rows_in_collection_def list_all_iff)
qed

lemma renderTaskDetails_frame [simp]:
  "selectedTaskId (renderTaskDetails t s) = selectedTaskId s"
  "tasks (renderTaskDetails t s) = tasks s"
  "row_ids (renderTaskDetails t s) = row_ids s"
  by (simp_all add: renderTaskDetails_def row_ids_def table_rows_def split: option.splits)

lemma task_ids_update:
  assumes "find_index (\<lambda>x. task_id x = n) ts = Some i" "task_id t = n"
  shows "map task_id (ts[i := t]) = map task_id ts"
proof -
  from find_index_Some[OF assms(1)] have "i < length ts" "task_id (ts ! i) = n" by simp_all
  with assms(2) show ?thesis by (simp add: map_update list_update_same_conv)
qed

lemma loadTaskDetails_then_facts:
  assumes "answers taskId r"
  shows "task_id ` set (tasks (loadTaskDetails_then taskId r s)) = task_id ` set (tasks s)"
    and "selectedTaskId (loadTaskDetails_then taskId r s) = selectedTaskId s"
    and "row_ids (loadTaskDetails_then taskId r s) = row_ids s"
proof -
  show "selectedTaskId (loadTaskDetails_then taskId r s) = selectedTaskId s"
    by (simp add: loadTaskDetails_then_def split: response.splits sum.splits option.splits)
  show "row_ids (loadTaskDetails_then taskId r s) = row_ids s"
    by (simp add: loadTaskDetails_then_def split: response.splits sum.splits option.splits)
  show "task_id ` set (tasks (loadTaskDetails_then taskId r s)) = task_id ` set (tasks s)"
  proof (cases r)
    case (NetworkError m)
    then show ?thesis by (simp add: loadTaskDetails_then_def)
  next
    case (Response st body)
    show ?thesis
    proof (cases body)
      case (Inl m)
      with Response show ?thesis by (simp add: loadTaskDetails_then_def)
    next
      case (Inr t)
      with Response assms have t: "task_id t = taskId" by (simp add: answers_def)
      show ?thesis
      proof (cases "find_index (\<lambda>x. task_id x = taskId) (tasks s)")
        case None
        with Response Inr show ?thesis by (simp add: loadTaskDetails_then_def)
      next
        case (Some i)
        have "set (map task_id ((tasks s)[i := t])) = set (map task_id (tasks s))"
          using task_ids_update[OF Some t] by simp
        then have "task_id ` set ((tasks s)[i := t]) = task_id ` set (tasks s)"
          by (simp only: set_map)
        with Response Inr Some show ?thesis
          by (simp add: loadTaskDetails_then_def)
      qed
    qed
  qed
qed

lemma inv_loadTaskDetails_then:
  assumes "answers taskId r" "selection_invariant s"
  shows "selection_invariant (loadTaskDetails_then taskId r s)"
  using loadTaskDetails_then_facts[OF assms(1), of s]
  by (intro invariant_kept[OF assms(2)]) simp_all

lemma submit_frame [simp]:
  "selectedTaskId (submit dp form td s) = selectedTaskId s"
  "tasks (submit dp form td s) = tasks s"
  "row_ids (submit dp form td s) = row_ids s"
  by (simp_all add: submit_def split: sum.splits)

lemma inv_handleTaskSubmission:
  "selection_invariant s \<Longrightarrow> selection_invariant (handleTaskSubmission dp form s)"
  by (erule invariant_kept) (simp_all add: handleTaskSubmission_def Let_def)

lemma inv_handleTaskSubmission_copy:
  "selection_invariant s \<Longrightarrow> selection_invariant (handleTaskSubmission_copy dp form s)"
  by (erule invariant_kept) (simp_all add: handleTaskSubmission_copy_def Let_def)

text \<open>
  Claim C8, as amended. Let the selected id be \<open>null\<close> or the id of a task of the list in
  memory, and let every row of the table show a task of that list. This still holds
  after a click on a row, closeTaskDetail, a click on a table header, deleteTask and its
  response, the response of loadTaskDetails when it carries the requested task,
  handleTaskSubmission, loadTasks, and a failed fetch of the task list. A task list that
  arrives leaves the selected id as it was: afterwards the selected id is \<open>null\<close> or in
  the new list exactly when it was \<open>null\<close> or the selected task is among the tasks that
  arrived.
\<close>

theorem selection_kept_except_by_loadTasks:
  assumes "selection_invariant s"
  shows "selection_invariant (handleTaskRowClick target s) \<and>
         selection_invariant (closeTaskDetail s) \<and>
         selection_invariant (sort_header_click dp field s) \<and>
         selection_invariant (deleteTask confirmed taskId s) \<and>
         selection_invariant (deleteTask_then taskId dr s) \<and>
         (answers taskId tr \<longrightarrow> selection_invariant (loadTaskDetails_then taskId tr s)) \<and>
         selection_invariant (handleTaskSubmission dp form s) \<and>
         selection_invariant (handleTaskSubmission_copy dp form s) \<and>
         selection_invariant (loadTasks s) \<and>
         (load_failed r \<longrightarrow> selection_invariant (loadTasks_then dp r s)) \<and>
         selectedTaskId (loadTasks_then dp r s) = selectedTaskId s \<and>
         (response_ok st \<longrightarrow>
            selection_in_collection (loadTasks_then dp (Response st (Inr data)) s) =
              (case selectedTaskId s of
                 None \<Rightarrow> True
               | Some i \<Rightarrow> i \<in> set (map task_id (tasks_of data)))) \<and>
         (response_ok st \<and> tasksCount s \<noteq> None \<longrightarrow>
            rows_in_collection (loadTasks_then dp (Response st (Inr data)) s))"
  using assms
  by (simp add: inv_handleTaskRowClick inv_closeTaskDetail inv_sort_header_click inv_deleteTask
      inv_deleteTask_then inv_loadTaskDetails_then inv_handleTaskSubmission
      inv_handleTaskSubmission_copy inv_loadTasks inv_loadTasks_then_failed
      loadTasks_then_selected selection_after_loadTasks rows_after_loadTasks)

lemma selected_example_facts:
  "selectedTaskId selected_example = Some 2"
  "detailVisible selected_example = True"
  "map task_id (tasks selected_example) = [1, 2]"
  "row_ids selected_example = [1, 2]"
  "tasksCount selected_example = Some 2"
  by (simp_all add: selected_example_def handleTaskRowClick_def clicked_row_def
      loaded_example_rows loaded_example_def loadTasks_then_def response_ok_def
      initial_state_def table_rows_def row_ids_def eval_sort toLowerCase_def or_empty_def
      set_maxHeight_def unmark_all_def mark_row_def set_rows_def loadTaskDetails_def
      loadComments_def fetch_def)

theorem selection_kept_except_by_loadTasks_witness:
  "selection_invariant selected_example \<and>
   selection_invariant (closeTaskDetail selected_example) \<and>
   selection_invariant (handleTaskRowClick (Some 0) selected_example) \<and>
   selection_invariant (deleteTask_then 2 (Response 200 (Inr None)) selected_example) \<and>
   selection_invariant (loadTaskDetails_then 2
      (Response 200 (Inr (example_task 2 (Some ''urgent'') (Some ''done'')))) selected_example) \<and>
   selection_invariant (loadTasks_then reject_all (Response 500 (Inl ''Internal Server Error''))
      selected_example) \<and>
   selection_in_collection (loadTasks_then reject_all
      (Response 200 (Inr (Bare [example_task 2 (Some ''high'') (Some ''done'')])))
      selected_example) \<and>
   rows_in_collection (loadTasks_then reject_all
      (Response 200 (Inr (Bare [example_task 2 (Some ''high'') (Some ''done'')])))
      selected_example)"
proof -
  have h: "selection_invariant selected_example"
    by (simp add: selection_invariant_def selection_in_collection_def rows_in_collection_def
        selected_example_facts)
  have a: "answers 2 (Response 200 (Inr (example_task 2 (Some ''urgent'') (Some ''done''))))"
    by (simp add: answers_def example_task_def)
  have f: "load_failed (Response 500 (Inl ''Internal Server Error''))"
    by (simp add: load_failed_def)
  have ok: "response_ok 200" by (simp add: response_ok_def)
  from selection_kept_except_by_loadTasks[OF h, of "Some 0" reject_all _ _ 2
      "Response 200 (Inr None)"
      "Response 200 (Inr (example_task 2 (Some ''urgent'') (Some ''done'')))" _
      "Response 500 (Inl ''Internal Server Error'')" 200
      "Bare [example_task 2 (Some ''high'') (Some ''done'')]"]
    h a f ok
  show ?thesis by (simp add: selected_example_facts example_task_def)
qed

text \<open>
  Where the claim C8 fails as stated: the second row is selected, then a task list
  arrives that lacks the selected task; the selected id is still 2 and the list holds
  only the task 1.
\<close>

theorem selection_stale_after_loadTasks:
  "selectedTaskId stale_example = Some 2 \<and>
   map task_id (tasks stale_example) = [1] \<and>
   \<not> selection_in_collection stale_example"
proof -
  have ok: "response_ok 200" by (simp add: response_ok_def)
  have 1: "selectedTaskId stale_example = Some 2"
    by (simp add: stale_example_def loadTasks_then_selected selected_example_facts)
  have 2: "map task_id (tasks stale_example) = [1]"
    by (simp add: stale_example_def loadTasks_then_def ok eval_sort)
  from 1 2 show ?thesis by (simp add: selection_in_collection_def)
qed

theorem deleteTask_clears_selection_witness:
  "selectedTaskId (deleteTask_then 2 (Response 200 (Inr None)) selected_example) = None \<and>
   detailVisible (deleteTask_then 2 (Response 200 (Inr None)) selected_example) = False \<and>
   selectedTaskId (deleteTask_then 1 (Response 200 (Inr None)) selected_example) = Some 2 \<and>
   detailVisible (deleteTask_then 1 (Response 200 (Inr None)) selected_example) = True"
proof -
  have ok: "response_ok 200" by (simp add: response_ok_def)
  from deleteTask_clears_selection[OF ok, of 2 "Inr None" selected_example]
    deleteTask_clears_selection[OF ok, of 1 "Inr None" selected_example]
  show ?thesis by (simp add: selected_example_facts)
qed

theorem loadTasks_failure_shows_empty_state_witness:
  "tasksTableBody (loadTasks_then reject_all (Response 500 (Inl ''Internal Server Error''))
      loaded_example) = Some Placeholder \<and>
   tasksCount (loadTasks_then reject_all (Response 500 (Inl ''Internal Server Error''))
      loaded_example) = Some 0 \<and>
   alerts (loadTasks_then reject_all (NetworkError ''Failed to fetch'') loaded_example) =
     [''Failed to load tasks. Please try again later.''] \<and>
   tasksTableBody (loadTasks_then reject_all (NetworkError ''Failed to fetch'') loaded_example) =
     Some Placeholder"
proof -
  have f: "load_failed (Response 500 (Inl ''Internal Server Error''))"
    "load_failed (NetworkError ''Failed to fetch'')"
    by (simp_all add: load_failed_def)
  have b: "tasksTableBody loaded_example =
      Some (Rows [\<lparr>row_task_id = 1, row_selected = False\<rparr>, \<lparr>row_task_id = 2, row_selected = False\<rparr>])"
    "tasksCount loaded_example = Some 2" "alerts loaded_example = []"
    by (simp_all add: loaded_example_def loadTasks_then_def response_ok_def initial_state_def
        eval_sort toLowerCase_def or_empty_def)
  from loadTasks_failure_shows_empty_state[OF f(1) b(1,2), of reject_all]
    loadTasks_failure_shows_empty_state[OF f(2) b(1,2), of reject_all] b(3)
  show ?thesis by simp
qed

end
